theory Spec2Isabelle
  imports Complex_Main "HOL-Library.Word"
begin

unbundle bit_operations_syntax

section \<open>The random number generator of utils.js\<close>

text \<open>
  JavaScript's bitwise operators convert each operand with ToInt32 (the mathematical
  value modulo \<open>2 ^ 32\<close>, read as two's complement), work on the 32 bits and give a
  signed 32-bit Number back. The state words are integer-valued Numbers, modelled as
  \<open>int\<close>; the 32-bit lanes are \<open>32 word\<close>.
\<close>

definition ToInt32 :: "int \<Rightarrow> 32 word" where
  "ToInt32 x = word_of_int x"

text \<open>\<^verbatim>\<open>x & y\<close>\<close>

definition js_and :: "int \<Rightarrow> int \<Rightarrow> int" where
  "js_and x y = sint (ToInt32 x AND ToInt32 y)"

text \<open>\<^verbatim>\<open>x ^ y\<close>\<close>

definition js_xor :: "int \<Rightarrow> int \<Rightarrow> int" where
  "js_xor x y = sint (ToInt32 x XOR ToInt32 y)"

text \<open>\<^verbatim>\<open>x << n\<close>: the shift count is taken modulo 32.\<close>

definition js_shl :: "int \<Rightarrow> nat \<Rightarrow> int" where
  "js_shl x n = sint (push_bit (n mod 32) (ToInt32 x))"

text \<open>\<^verbatim>\<open>x >> n\<close>: the sign-propagating right shift.\<close>

definition js_sar :: "int \<Rightarrow> nat \<Rightarrow> int" where
  "js_sar x n = sint (signed_drop_bit (n mod 32) (ToInt32 x))"

text \<open>
  The state is the array \<^verbatim>\<open>[state[0], state[1], state[2]]\<close>. The source mutates it in
  place; the model returns the new array beside the result.
\<close>

type_synonym rng_state = "int \<times> int \<times> int"

definition tauRandInt :: "rng_state \<Rightarrow> int \<times> rng_state" where
  "tauRandInt state =
     (case state of (s0, s1, s2) \<Rightarrow>
        let t0 = js_xor (js_and (js_shl (js_and s0 4294967294) 12) 0xffffffff)
                        (js_sar (js_xor (js_and (js_shl s0 13) 0xffffffff) s0) 19);
            t1 = js_xor (js_and (js_shl (js_and s1 4294967288) 4) 0xffffffff)
                        (js_sar (js_xor (js_and (js_shl s1 2) 0xffffffff) s1) 25);
            t2 = js_xor (js_and (js_shl (js_and s2 4294967280) 17) 0xffffffff)
                        (js_sar (js_xor (js_and (js_shl s2 3) 0xffffffff) s2) 11)
        in (js_xor (js_xor t0 t1) t2, (t0, t1, t2)))"

text \<open>
  \<^verbatim>\<open>randInt / 0x7fffffff\<close>. The quotient is taken in the reals: rounding to a double
  is monotone and keeps 0, so the sign of the result and its comparison with 0 are those
  of the exact quotient.
\<close>

definition tauRand :: "rng_state \<Rightarrow> real \<times> rng_state" where
  "tauRand state =
     (case tauRandInt state of
        (randInt, state') \<Rightarrow> (real_of_int randInt / 0x7fffffff, state'))"

text \<open>
  A caller's sequence of draws from one state array: each call works on the state the
  previous one left.
\<close>

datatype rng_call = NextInt | NextFloat

datatype rng_output = IntOut int | FloatOut real

fun rng_run :: "rng_call list \<Rightarrow> rng_state \<Rightarrow> rng_output list \<times> rng_state" where
  "rng_run [] s = ([], s)"
| "rng_run (NextInt # cs) s =
     (case tauRandInt s of
        (r, s') \<Rightarrow> (case rng_run cs s' of (outs, s'') \<Rightarrow> (IntOut r # outs, s'')))"
| "rng_run (NextFloat # cs) s =
     (case tauRand s of
        (r, s') \<Rightarrow> (case rng_run cs s' of (outs, s'') \<Rightarrow> (FloatOut r # outs, s'')))"


section \<open>The TensorFlow.js operations that the code calls\<close>

text \<open>
  A tensor is its shape and its values in row-major order. Single precision floats are
  modelled as reals. A \<^verbatim>\<open>tf.scalar(c)\<close> operand is broadcast over the other operand,
  so it is modelled by the number \<open>c\<close> itself; a boolean tensor is the list of its
  values. Every operation returns a new tensor and leaves its operands as they are.
\<close>

record tensor =
  shape :: "nat list"
  vals :: "real list"

datatype error = ReferenceError string | RangeError | TensorError

text \<open>
  \<^verbatim>\<open>tf.tensor(X)\<close> for an array of rows: the shape is inferred from the first row and
  an error is thrown when another row has a different length. The empty array has shape
  \<open>[0]\<close>.
\<close>

definition tf_tensor :: "real list list \<Rightarrow> error + tensor" where
  "tf_tensor X =
     (case X of
        [] \<Rightarrow> Inr \<lparr>shape = [0], vals = []\<rparr>
      | row # rows \<Rightarrow>
          if list_all (\<lambda>r. length r = length row) rows
          then Inr \<lparr>shape = [length X, length row], vals = concat X\<rparr>
          else Inl TensorError)"

definition tf_zeros :: "nat list \<Rightarrow> tensor" where
  "tf_zeros sh = \<lparr>shape = sh, vals = replicate (prod_list sh) 0\<rparr>"

definition tf_ones :: "nat list \<Rightarrow> tensor" where
  "tf_ones sh = \<lparr>shape = sh, vals = replicate (prod_list sh) 1\<rparr>"

definition tf_linspace :: "real \<Rightarrow> real \<Rightarrow> nat \<Rightarrow> tensor" where
  "tf_linspace start stop num =
     \<lparr>shape = [num],
      vals = map (\<lambda>i. start + real i * ((stop - start) / real (num - 1))) [0..<num]\<rparr>"

definition tf_map :: "(real \<Rightarrow> real) \<Rightarrow> tensor \<Rightarrow> tensor" where
  "tf_map f t = t\<lparr>vals := map f (vals t)\<rparr>"

definition tf_less :: "tensor \<Rightarrow> real \<Rightarrow> bool list" where
  "tf_less t c = map (\<lambda>x. x < c) (vals t)"

definition tf_greaterEqual :: "tensor \<Rightarrow> real \<Rightarrow> bool list" where
  "tf_greaterEqual t c = map (\<lambda>x. x \<ge> c) (vals t)"

text \<open>
  \<^verbatim>\<open>t.where(condition, x)\<close> is \<^verbatim>\<open>tf.where(condition, t, x)\<close>: the elements of \<open>t\<close>
  where the condition holds and those of \<open>x\<close> elsewhere, in a new tensor.
\<close>

definition tf_where :: "tensor \<Rightarrow> bool list \<Rightarrow> tensor \<Rightarrow> tensor" where
  "tf_where t condition x =
     t\<lparr>vals := map (\<lambda>(c, p, q). if c then p else q) (zip condition (zip (vals t) (vals x)))\<rparr>"

definition tf_exp :: "tensor \<Rightarrow> tensor" where
  "tf_exp t = tf_map exp t"

text \<open>\<^verbatim>\<open>a.sub(b).norm('euclidean')\<close> on two vectors of the same length.\<close>

definition euclidean :: "real list \<Rightarrow> real list \<Rightarrow> real" where
  "euclidean a b = sqrt (sum_list (map (\<lambda>(x, y). (x - y)\<^sup>2) (zip a b)))"


section \<open>The curve fitter of utils.js\<close>

text \<open>
  The tensors \<^verbatim>\<open>xv\<close> and \<^verbatim>\<open>yv\<close> that findABParams builds and hands to curveFit as
  the samples and the target of the fit. The two \<^verbatim>\<open>yv.where(...)\<close> calls are
  evaluated and their results dropped, as in the source.
\<close>

definition findABParams_target :: "real \<Rightarrow> real \<Rightarrow> tensor \<times> tensor" where
  "findABParams_target spread minDist =
     (let xv = tf_linspace 0 (spread * 3) 300;
          yv = tf_zeros (shape xv);
          dropped1 = tf_where yv (tf_less xv minDist) (tf_ones (shape xv));
          dropped2 = tf_where yv (tf_greaterEqual xv minDist)
                       (tf_exp (tf_map (\<lambda>x. 0 - x)
                          (tf_map (\<lambda>x. x / spread) (tf_map (\<lambda>x. x - minDist) xv))))
      in (xv, yv))"

text \<open>The target curve as the specification words it.\<close>

definition spec_target :: "real \<Rightarrow> real \<Rightarrow> real \<Rightarrow> real" where
  "spec_target spread minDist x =
     (if x < minDist then 1.0 else exp (- (x - minDist) / spread))"


section \<open>The class UMAP of umap.js\<close>

subsection \<open>The constructor\<close>

text \<open>
  The configuration object: each property is absent (\<open>None\<close>, JavaScript's
  \<^verbatim>\<open>undefined\<close>) or has a value of the type that the constructor's comment gives it.
\<close>

record config =
  cfg_nNeighbors :: "int option"
  cfg_nComponents :: "int option"
  cfg_metric :: "(real list \<Rightarrow> real list \<Rightarrow> real) option"
  cfg_metricArgs :: "real list option"
  cfg_nEpochs :: "int option"
  cfg_learningRate :: "real option"
  cfg_init :: "string option"
  cfg_minDist :: "real option"
  cfg_spread :: "real option"
  cfg_setOpMixRatio :: "real option"
  cfg_localConnectivity :: "real option"
  cfg_repulsionStrength :: "real option"
  cfg_negativeSampleRate :: "int option"
  cfg_transformQueueSize :: "real option"
  cfg_a :: "real option"
  cfg_b :: "real option"
  cfg_angularRPForest :: "bool option"

text \<open>The object \<^verbatim>\<open>{}\<close>.\<close>

definition empty_config :: config where
  "empty_config =
     \<lparr>cfg_nNeighbors = None, cfg_nComponents = None, cfg_metric = None,
      cfg_metricArgs = None, cfg_nEpochs = None, cfg_learningRate = None, cfg_init = None,
      cfg_minDist = None, cfg_spread = None, cfg_setOpMixRatio = None,
      cfg_localConnectivity = None, cfg_repulsionStrength = None,
      cfg_negativeSampleRate = None, cfg_transformQueueSize = None, cfg_a = None,
      cfg_b = None, cfg_angularRPForest = None\<rparr>"

text \<open>
  \<^verbatim>\<open>v || d\<close>: the left operand when it is truthy, the right one otherwise. Of the
  values modelled, \<^verbatim>\<open>undefined\<close>, the number 0, the empty string and \<^verbatim>\<open>false\<close> are
  falsy; functions and arrays are always truthy.
\<close>

definition js_or :: "('a \<Rightarrow> bool) \<Rightarrow> 'a option \<Rightarrow> 'a \<Rightarrow> 'a" where
  "js_or truthy v d = (case v of None \<Rightarrow> d | Some x \<Rightarrow> if truthy x then x else d)"

definition truthy_number :: "'a::zero \<Rightarrow> bool" where
  "truthy_number x = (\<not> x = 0)"

definition truthy_string :: "string \<Rightarrow> bool" where
  "truthy_string x = (\<not> x = [])"

definition truthy_boolean :: "bool \<Rightarrow> bool" where
  "truthy_boolean x = x"

definition truthy_object :: "'a \<Rightarrow> bool" where
  "truthy_object x = True"

text \<open>
  What \<^verbatim>\<open>this.a\<close> and \<^verbatim>\<open>this.b\<close> hold: \<^verbatim>\<open>undefined\<close>, or the number that the
  configuration gave.
\<close>

datatype curve_param = Undefined | Number real

text \<open>
  The fields of an instance: \<open>this_x\<close> is \<^verbatim>\<open>this.x\<close>. The constructor sets the first
  seventeen; the others are \<^verbatim>\<open>undefined\<close> (\<open>None\<close>) until a method assigns them;
  \<open>'f\<close> is the type of a random projection forest. The field \<^verbatim>\<open>embedding_\<close> is
  written \<open>this_embedding\<close>, without the underscore that ends its name.
\<close>

record 'f umap =
  this_nNeighbors :: int
  this_nComponents :: int
  this_nEpochs :: "int option"
  this_metric :: "real list \<Rightarrow> real list \<Rightarrow> real"
  this_metricArgs :: "real list"
  this_learningRate :: real
  this_init :: string
  this_minDist :: real
  this_spread :: real
  this_setOpMixRatio :: real
  this_localConnectivity :: real
  this_repulsionStrength :: real
  this_negativeSampleRate :: int
  this_transformQueueSize :: real
  this_a :: curve_param
  this_b :: curve_param
  this_angularRPForest :: bool
  this__rawData :: "real list list option"
  this__initialAlpha :: "real option"
  this__nNeighbors :: "int option"
  this__KNNIndices :: "nat list list option"
  this__KNNDists :: "real list list option"
  this__RPForest :: "'f option"
  this_embedding :: "tensor option"

definition param_of :: "real option \<Rightarrow> curve_param" where
  "param_of v = (case v of None \<Rightarrow> Undefined | Some x \<Rightarrow> Number x)"

text \<open>
  \<^verbatim>\<open>new UMAP(config)\<close> gives the instance, or the error that the constructor throws.
  \<^verbatim>\<open>config || {}\<close> reads an absent configuration as the empty object.
\<close>

definition constructor :: "config option \<Rightarrow> error + 'f umap" where
  "constructor config =
     (let c = (case config of None \<Rightarrow> empty_config | Some c \<Rightarrow> c)
      in Inr
        \<lparr>this_nNeighbors = js_or truthy_number (cfg_nNeighbors c) 15,
         this_nComponents = js_or truthy_number (cfg_nComponents c) 2,
         this_nEpochs = cfg_nEpochs c,
         this_metric = js_or truthy_object (cfg_metric c) euclidean,
         this_metricArgs = js_or truthy_object (cfg_metricArgs c) [],
         this_learningRate = js_or truthy_number (cfg_learningRate c) 1.0,
         this_init = js_or truthy_string (cfg_init c) ''spectral'',
         this_minDist = js_or truthy_number (cfg_minDist c) 0.1,
         this_spread = js_or truthy_number (cfg_spread c) 1.0,
         this_setOpMixRatio = js_or truthy_number (cfg_setOpMixRatio c) 1.0,
         this_localConnectivity = js_or truthy_number (cfg_localConnectivity c) 1.0,
         this_repulsionStrength = js_or truthy_number (cfg_repulsionStrength c) 1.0,
         this_negativeSampleRate = js_or truthy_number (cfg_negativeSampleRate c) 5,
         this_transformQueueSize = js_or truthy_number (cfg_transformQueueSize c) 4.0,
         this_a = param_of (cfg_a c),
         this_b = param_of (cfg_b c),
         this_angularRPForest = js_or truthy_boolean (cfg_angularRPForest c) False,
         this__rawData = None,
         this__initialAlpha = None,
         this__nNeighbors = None,
         this__KNNIndices = None,
         this__KNNDists = None,
         this__RPForest = None,
         this_embedding = None\<rparr>)"

text \<open>
  An invalid parameter combination, in the specification's words: the documented ranges
  \<open>nNeighbors \<ge> 2\<close>, \<open>nComponents \<ge> 1\<close>, \<open>0 < minDist \<le> spread\<close>,
  \<open>setOpMixRatio\<close> in \<open>[0, 1]\<close>, \<open>localConnectivity \<ge> 1\<close> and
  \<open>repulsionStrength \<ge> 0\<close>, read on the values after defaulting.
\<close>

definition spec_valid :: "'f umap \<Rightarrow> bool" where
  "spec_valid this =
     (2 \<le> this_nNeighbors this \<and> 1 \<le> this_nComponents this \<and>
      0 < this_minDist this \<and> this_minDist this \<le> this_spread this \<and>
      0 \<le> this_setOpMixRatio this \<and> this_setOpMixRatio this \<le> 1 \<and>
      1 \<le> this_localConnectivity this \<and> 0 \<le> this_repulsionStrength this)"

subsection \<open>fit and fitTransform\<close>

text \<open>
  What the methods reach outside the instance: the global binding \<^verbatim>\<open>self\<close> (the
  window or worker scope of a browser, with its property \<^verbatim>\<open>embedding_\<close>; \<open>None\<close>
  where nothing is bound to the name).
\<close>

record global_scope =
  self_embedding :: "tensor option"

record world =
  global_self :: "global_scope option"

text \<open>
  The statements of fit from the assignment of \<^verbatim>\<open>this._nNeighbors\<close> on, for the
  effective neighbour count \<open>k\<close>. The name \<^verbatim>\<open>nearestNeighbors\<close> is imported and
  defined nowhere: resolving it throws a ReferenceError before the arguments of the call
  are evaluated, and the three assignments that follow the call are never reached.
\<close>

definition fit_neighbors :: "'f umap \<Rightarrow> world \<Rightarrow> int \<Rightarrow> (error + unit) \<times> 'f umap \<times> world" where
  "fit_neighbors this w k =
     (Inl (ReferenceError ''nearestNeighbors''), this\<lparr>this__nNeighbors := Some k\<rparr>, w)"

text \<open>
  fit returns how the call ended, the instance and the world as it leaves them (an error
  keeps the assignments made before it). umap.js imports only \<^verbatim>\<open>euclidean\<close> from
  utils.js, so the name \<^verbatim>\<open>findABParams\<close> is unbound in it: when \<^verbatim>\<open>this.a\<close> or
  \<^verbatim>\<open>this.b\<close> is \<^verbatim>\<open>undefined\<close> the call throws a ReferenceError, before anything is
  assigned to \<^verbatim>\<open>this.a\<close>, \<^verbatim>\<open>this.b\<close> or \<^verbatim>\<open>this._initialAlpha\<close>.
  \<^verbatim>\<open>tX.shape[0]\<close> of a tensor without dimensions is \<^verbatim>\<open>undefined\<close>, and the comparison
  with it is false. In the branch for one sample the assignment is to
  \<^verbatim>\<open>self.embedding_\<close>: the name \<^verbatim>\<open>self\<close> is resolved first, then \<^verbatim>\<open>tf.zeros\<close> is
  called, which throws for a negative size.
\<close>

definition fit :: "'f umap \<Rightarrow> real list list \<Rightarrow> world \<Rightarrow> (error + unit) \<times> 'f umap \<times> world" where
  "fit this X w =
     (let this1 = this\<lparr>this__rawData := Some X\<rparr>
      in if this_a this1 = Undefined \<or> this_b this1 = Undefined
         then (Inl (ReferenceError ''findABParams''), this1, w)
         else
           let this2 = this1\<lparr>this__initialAlpha := Some (this_learningRate this1)\<rparr>
           in case tf_tensor X of
                Inl e \<Rightarrow> (Inl e, this2, w)
              | Inr tX \<Rightarrow>
                  (case shape tX of
                     [] \<Rightarrow> fit_neighbors this2 w (this_nNeighbors this2)
                   | n # ds \<Rightarrow>
                       if int n \<le> this_nNeighbors this2 then
                         if n = 1 then
                           (case global_self w of
                              None \<Rightarrow> (Inl (ReferenceError ''self''), this2, w)
                            | Some g \<Rightarrow>
                                if this_nComponents this2 < 0 then (Inl RangeError, this2, w)
                                else (Inr (), this2,
                                      w\<lparr>global_self := Some (g\<lparr>self_embedding :=
                                           Some (tf_zeros [1, nat (this_nComponents this2)])\<rparr>)\<rparr>))
                         else fit_neighbors this2 w (int n - 1)
                       else fit_neighbors this2 w (this_nNeighbors this2)))"

text \<open>
  fitTransform awaits fit and returns \<^verbatim>\<open>this.embedding_\<close>, \<open>None\<close> when the field is
  \<^verbatim>\<open>undefined\<close>.
\<close>

definition fitTransform ::
  "'f umap \<Rightarrow> real list list \<Rightarrow> world \<Rightarrow> (error + tensor option) \<times> 'f umap \<times> world" where
  "fitTransform this X w =
     (case fit this X w of
        (Inl e, this', w') \<Rightarrow> (Inl e, this', w')
      | (Inr ok, this', w') \<Rightarrow> (Inr (this_embedding this'), this', w'))"


section \<open>Properties of the random number generator\<close>

lemma js_xor_range: "- (2 ^ 31) \<le> js_xor x y \<and> js_xor x y < 2 ^ 31"
  using sint_ge [of "ToInt32 x XOR ToInt32 y"] sint_lt [of "ToInt32 x XOR ToInt32 y"]
  by (simp add: js_xor_def)

lemma tauRandInt_result:
  "fst (tauRandInt s) =
     js_xor (js_xor (fst (snd (tauRandInt s))) (fst (snd (snd (tauRandInt s)))))
       (snd (snd (snd (tauRandInt s))))"
  by (cases s) (simp add: tauRandInt_def Let_def)

lemma tauRandInt_words:
  "\<exists>x0 y0 x1 y1 x2 y2. snd (tauRandInt s) = (js_xor x0 y0, js_xor x1 y1, js_xor x2 y2)"
  by (cases s) (auto simp: tauRandInt_def Let_def)

lemma tauRand_range:
  "- (2147483648 / 2147483647) \<le> fst (tauRand s) \<and> fst (tauRand s) \<le> 1"
proof -
  let ?r = "fst (tauRandInt s)"
  have "- (2 ^ 31) \<le> ?r \<and> ?r < 2 ^ 31"
    by (subst (1 2) tauRandInt_result) (rule js_xor_range)
  then have "- 2147483648 \<le> real_of_int ?r" and "real_of_int ?r \<le> 2147483647"
    by simp_all
  then show ?thesis
    by (simp add: tauRand_def case_prod_unfold)
qed

lemma length_rng_run: "length (fst (rng_run cs s)) = length cs"
proof (induction cs arbitrary: s)
  case Nil
  show ?case by simp
next
  case (Cons c cs)
  show ?case
    using Cons.IH by (cases c) (simp_all add: case_prod_unfold)
qed

text \<open>
  Claim C10. Whatever three integers the state array holds, the value tauRandInt returns
  is a signed 32-bit integer, and so is each of the three state words it leaves behind.
\<close>

theorem tauRandInt_int32_range:
  "- (2 ^ 31) \<le> fst (tauRandInt (s0, s1, s2)) \<and> fst (tauRandInt (s0, s1, s2)) < 2 ^ 31 \<and>
   - (2 ^ 31) \<le> fst (snd (tauRandInt (s0, s1, s2))) \<and>
   fst (snd (tauRandInt (s0, s1, s2))) < 2 ^ 31 \<and>
   - (2 ^ 31) \<le> fst (snd (snd (tauRandInt (s0, s1, s2)))) \<and>
   fst (snd (snd (tauRandInt (s0, s1, s2)))) < 2 ^ 31 \<and>
   - (2 ^ 31) \<le> snd (snd (snd (tauRandInt (s0, s1, s2)))) \<and>
   snd (snd (snd (tauRandInt (s0, s1, s2)))) < 2 ^ 31"
proof -
  let ?s = "(s0, s1, s2)"
  obtain x0 y0 x1 y1 x2 y2
    where w: "snd (tauRandInt ?s) = (js_xor x0 y0, js_xor x1 y1, js_xor x2 y2)"
    using tauRandInt_words [of ?s] by blast
  have "- (2 ^ 31) \<le> fst (tauRandInt ?s) \<and> fst (tauRandInt ?s) < 2 ^ 31"
    by (subst (1 2) tauRandInt_result) (rule js_xor_range)
  then show ?thesis
    using js_xor_range [of x0 y0] js_xor_range [of x1 y1] js_xor_range [of x2 y2]
    by (simp add: w)
qed

text \<open>
  Claim C5. Two runs of the same sequence of tauRandInt and tauRand calls from equal
  initial states give the same outputs, one per call, and end in the same state: the
  generator reads nothing but the state array it is handed.
\<close>

theorem rng_run_deterministic:
  assumes "s1 = s2" and "cs1 = cs2"
  shows "rng_run cs1 s1 = rng_run cs2 s2 \<and>
         length (fst (rng_run cs1 s1)) = length cs1 \<and>
         length (fst (rng_run cs2 s2)) = length cs2"
  using assms by (simp add: length_rng_run)

text \<open>The witness: one draw of each kind from the state \<^verbatim>\<open>[1, 2, 16384]\<close>.\<close>

theorem rng_run_deterministic_witness:
  "rng_run [NextInt, NextFloat] (1, 2, 16384) = rng_run [NextInt, NextFloat] (1, 2, 16384) \<and>
   length (fst (rng_run [NextInt, NextFloat] (1, 2, 16384))) = 2"
  using rng_run_deterministic [of "(1, 2, 16384)" "(1, 2, 16384)"
      "[NextInt, NextFloat]" "[NextInt, NextFloat]"]
  by simp

text \<open>
  Claim C4. The state \<^verbatim>\<open>[0, 0, 16384]\<close> makes tauRandInt return \<open>- 2147483576\<close>, and
  tauRand divides it by \<^verbatim>\<open>0x7fffffff\<close> with its sign: the float is negative, outside the
  interval from 0 to 1 that the function's comment promises.
\<close>

theorem tauRand_negative_output:
  "fst (tauRand (0, 0, 16384)) = - 2147483576 / 2147483647 \<and>
   fst (tauRand (0, 0, 16384)) < 0"
  by (simp add: tauRand_def tauRandInt_def js_xor_def js_and_def js_shl_def js_sar_def
      ToInt32_def)


section \<open>Properties of the curve fitter\<close>

lemma findABParams_target_zeros:
  "snd (findABParams_target spread minDist) = tf_zeros [300]"
  by (simp add: findABParams_target_def tf_linspace_def Let_def)

lemma findABParams_target_xs:
  "fst (findABParams_target spread minDist) = tf_linspace 0 (spread * 3) 300"
  by (simp add: findABParams_target_def Let_def)

text \<open>
  Claim C3. For \<^verbatim>\<open>spread = 1\<close> and \<^verbatim>\<open>minDist = 0.1\<close> the target that findABParams
  hands to curveFit is 300 zeros: its first sample, at \<open>x = 0\<close>, is 0, where the curve
  of the specification is 1. The two \<^verbatim>\<open>yv.where\<close> calls build new tensors and the
  code drops them.
\<close>

theorem findABParams_target_all_zero:
  "vals (snd (findABParams_target 1 (1 / 10))) = replicate 300 0 \<and>
   vals (fst (findABParams_target 1 (1 / 10))) ! 0 = 0 \<and>
   vals (snd (findABParams_target 1 (1 / 10))) ! 0 = 0 \<and>
   spec_target 1 (1 / 10) (vals (fst (findABParams_target 1 (1 / 10))) ! 0) = 1"
  by (simp add: findABParams_target_zeros findABParams_target_xs tf_zeros_def tf_linspace_def
      spec_target_def)


section \<open>Properties of the constructor\<close>

lemma constructor_defaults:
  "constructor None =
     Inr \<lparr>this_nNeighbors = 15, this_nComponents = 2, this_nEpochs = None,
          this_metric = euclidean, this_metricArgs = [], this_learningRate = 1,
          this_init = ''spectral'', this_minDist = 1 / 10, this_spread = 1,
          this_setOpMixRatio = 1, this_localConnectivity = 1, this_repulsionStrength = 1,
          this_negativeSampleRate = 5, this_transformQueueSize = 4, this_a = Undefined,
          this_b = Undefined, this_angularRPForest = False, this__rawData = None,
          this__initialAlpha = None, this__nNeighbors = None, this__KNNIndices = None,
          this__KNNDists = None, this__RPForest = None, this_embedding = None\<rparr>"
  by (simp add: constructor_def empty_config_def js_or_def param_of_def)

lemma constructor_with:
  "\<exists>this. constructor (Some c) = Inr this \<and>
     this_nNeighbors this = js_or truthy_number (cfg_nNeighbors c) 15 \<and>
     this_minDist this = js_or truthy_number (cfg_minDist c) (1 / 10) \<and>
     this_spread this = js_or truthy_number (cfg_spread c) 1 \<and>
     this_setOpMixRatio this = js_or truthy_number (cfg_setOpMixRatio c) 1 \<and>
     this_a this = param_of (cfg_a c) \<and> this_b this = param_of (cfg_b c)"
  by (simp add: constructor_def)

text \<open>
  Claim C6, as stated, fails: the configuration with \<^verbatim>\<open>minDist = 2\<close> and
  \<^verbatim>\<open>spread = 1\<close> is outside the documented ranges, and the constructor returns an
  instance that holds both values.
\<close>

theorem constructor_accepts_minDist_above_spread:
  "case constructor (Some (empty_config\<lparr>cfg_minDist := Some 2, cfg_spread := Some 1\<rparr>))
          :: error + unit umap of
     Inl e \<Rightarrow> False
   | Inr this \<Rightarrow>
       this_minDist this = 2 \<and> this_spread this = 1 \<and> this_spread this < this_minDist this \<and>
       \<not> spec_valid this"
  by (simp add: constructor_def empty_config_def js_or_def truthy_number_def spec_valid_def)

text \<open>
  Claim C6, amended. The constructor validates nothing: for every configuration, inside
  the documented ranges or not, it throws no error and returns an instance.
\<close>

theorem constructor_never_fails:
  "\<exists>this. constructor config = Inr this"
  by (simp add: constructor_def Let_def)

text \<open>
  Claim C9. The configuration \<^verbatim>\<open>{setOpMixRatio: 0.0}\<close> supplies a value inside
  \<open>[0, 1]\<close>, the pure fuzzy intersection of the constructor's comment. The number 0 is
  falsy, so \<^verbatim>\<open>setOpMixRatio || 1.0\<close> stores the default 1 in its place.
\<close>

theorem constructor_replaces_zero_setOpMixRatio:
  "case constructor (Some (empty_config\<lparr>cfg_setOpMixRatio := Some 0\<rparr>))
          :: error + unit umap of
     Inl e \<Rightarrow> False
   | Inr this \<Rightarrow> this_setOpMixRatio this = 1"
  by (simp add: constructor_def empty_config_def js_or_def truthy_number_def)


section \<open>Properties of fit and fitTransform\<close>

text \<open>fit assigns none of \<^verbatim>\<open>this.embedding_\<close>, \<^verbatim>\<open>this.a\<close> and \<^verbatim>\<open>this.b\<close>.\<close>

lemma fit_frame:
  "this_embedding (fst (snd (fit this X w))) = this_embedding this \<and>
   this_a (fst (snd (fit this X w))) = this_a this \<and>
   this_b (fst (snd (fit this X w))) = this_b this"
  by (simp add: fit_def fit_neighbors_def Let_def
      split: sum.splits list.splits option.splits)

text \<open>With \<^verbatim>\<open>this.a\<close> or \<^verbatim>\<open>this.b\<close> undefined, fit stops at the unbound name.\<close>

lemma fit_unbound_findABParams:
  assumes "this_a this = Undefined \<or> this_b this = Undefined"
  shows "fit this X w =
           (Inl (ReferenceError ''findABParams''), this\<lparr>this__rawData := Some X\<rparr>, w)"
  using assms by (auto simp: fit_def Let_def)

text \<open>
  With both supplied and at least two rows of equal length, fit stores the clamped count
  and stops at the other unbound name.
\<close>

lemma fit_clamps_then_throws:
  assumes "\<not> this_a this = Undefined" and "\<not> this_b this = Undefined"
    and "tf_tensor X = Inr tX" and "2 \<le> length X"
  shows "fst (fit this X w) = Inl (ReferenceError ''nearestNeighbors'') \<and>
         this__nNeighbors (fst (snd (fit this X w))) =
           Some (if int (length X) \<le> this_nNeighbors this then int (length X) - 1
                 else this_nNeighbors this)"
proof -
  obtain row rows where x: "X = row # rows"
    using assms(4) by (cases X) auto
  have s: "shape tX = [length X, length row]"
    using assms(3) x by (auto simp: tf_tensor_def split: if_splits)
  show ?thesis
    using assms(1,2,4) by (simp add: fit_def Let_def assms(3) s fit_neighbors_def)
qed

text \<open>So no call of fit on two or more rows of equal length returns normally.\<close>

lemma fit_at_least_two_fails:
  assumes "tf_tensor X = Inr tX" and "2 \<le> length X"
  shows "isl (fst (fit this X w))"
proof (cases "this_a this = Undefined \<or> this_b this = Undefined")
  case True
  then show ?thesis
    by (simp add: fit_unbound_findABParams)
next
  case False
  then show ?thesis
    using fit_clamps_then_throws [OF _ _ assms, of "this" w] by simp
qed

text \<open>
  Claim C1. An instance configured with \<^verbatim>\<open>a = 1\<close> and \<^verbatim>\<open>b = 1\<close>, in a browser, is
  given the one sample \<^verbatim>\<open>[[0, 0]]\<close>: fitTransform returns \<^verbatim>\<open>undefined\<close> and
  \<^verbatim>\<open>this.embedding_\<close> stays \<^verbatim>\<open>undefined\<close>. The zeros of shape \<open>(1, 2)\<close> go to the
  property \<^verbatim>\<open>embedding_\<close> of the global \<^verbatim>\<open>self\<close>, since the code assigns
  \<^verbatim>\<open>self.embedding_\<close> where it means \<^verbatim>\<open>this.embedding_\<close>. A default instance, which
  has no \<^verbatim>\<open>a\<close> and no \<^verbatim>\<open>b\<close>, does not get that far on the same sample:
  fitTransform throws the ReferenceError of the unbound \<^verbatim>\<open>findABParams\<close> and writes no
  zeros anywhere.
\<close>

theorem fitTransform_single_sample_undefined:
  "(case constructor (Some (empty_config\<lparr>cfg_a := Some 1, cfg_b := Some 1\<rparr>))
           :: error + unit umap of
      Inl e \<Rightarrow> False
    | Inr this \<Rightarrow>
        (case fitTransform this [[0, 0]] \<lparr>global_self = Some \<lparr>self_embedding = None\<rparr>\<rparr> of
           (res, this', w') \<Rightarrow>
             res = Inr None \<and> this_embedding this' = None \<and>
             global_self w' =
               Some \<lparr>self_embedding = Some \<lparr>shape = [1, 2], vals = [0, 0]\<rparr>\<rparr>)) \<and>
   (case constructor None :: error + unit umap of
      Inl e \<Rightarrow> False
    | Inr this \<Rightarrow>
        (case fitTransform this [[0, 0]] \<lparr>global_self = Some \<lparr>self_embedding = None\<rparr>\<rparr> of
           (res, this', w') \<Rightarrow>
             res = Inl (ReferenceError ''findABParams'') \<and> this_embedding this' = None \<and>
             global_self w' = Some \<lparr>self_embedding = None\<rparr>))"
  by (simp add: constructor_def empty_config_def js_or_def param_of_def fitTransform_def
      fit_def Let_def tf_tensor_def tf_zeros_def numeral_2_eq_2)

text \<open>
  Claim C7. Two samples, with the default \<^verbatim>\<open>nNeighbors = 15\<close>. An instance
  configured with \<^verbatim>\<open>a = 1\<close> and \<^verbatim>\<open>b = 1\<close> stores the clamped count 1 in
  \<^verbatim>\<open>this._nNeighbors\<close> and then fails: fit throws the ReferenceError of the unbound
  \<^verbatim>\<open>nearestNeighbors\<close>. A default instance fails earlier, at the unbound
  \<^verbatim>\<open>findABParams\<close>, and \<^verbatim>\<open>this._nNeighbors\<close> stays \<^verbatim>\<open>undefined\<close>.
\<close>

theorem fit_two_samples_throws:
  "(case constructor (Some (empty_config\<lparr>cfg_a := Some 1, cfg_b := Some 1\<rparr>))
           :: error + unit umap of
      Inl e \<Rightarrow> False
    | Inr this \<Rightarrow>
        (case fit this [[0, 0], [1, 1]] \<lparr>global_self = Some \<lparr>self_embedding = None\<rparr>\<rparr> of
           (res, this', w') \<Rightarrow>
             res = Inl (ReferenceError ''nearestNeighbors'') \<and>
             this__nNeighbors this' = Some 1)) \<and>
   (case constructor None :: error + unit umap of
      Inl e \<Rightarrow> False
    | Inr this \<Rightarrow>
        (case fit this [[0, 0], [1, 1]] \<lparr>global_self = Some \<lparr>self_embedding = None\<rparr>\<rparr> of
           (res, this', w') \<Rightarrow>
             res = Inl (ReferenceError ''findABParams'') \<and> this__nNeighbors this' = None))"
  by (simp add: constructor_def empty_config_def js_or_def param_of_def truthy_number_def
      fit_def fit_neighbors_def Let_def tf_tensor_def)

text \<open>
  Claim C8. A default instance has no \<^verbatim>\<open>a\<close> and no \<^verbatim>\<open>b\<close>: fit throws the
  ReferenceError of the unbound \<^verbatim>\<open>findABParams\<close> and both stay \<^verbatim>\<open>undefined\<close>. An
  instance configured with \<^verbatim>\<open>a = 5\<close> alone fails in the same way: \<^verbatim>\<open>this.a\<close> is
  still 5 and \<^verbatim>\<open>this.b\<close> is still \<^verbatim>\<open>undefined\<close>. Neither parameter is ever
  computed.
\<close>

theorem fit_never_computes_curve_params:
  "(case constructor None :: error + unit umap of
      Inl e \<Rightarrow> False
    | Inr this \<Rightarrow>
        (case fit this [[0, 0]] \<lparr>global_self = Some \<lparr>self_embedding = None\<rparr>\<rparr> of
           (res, this', w') \<Rightarrow>
             res = Inl (ReferenceError ''findABParams'') \<and>
             this_a this' = Undefined \<and> this_b this' = Undefined)) \<and>
   (case constructor (Some (empty_config\<lparr>cfg_a := Some 5\<rparr>)) :: error + unit umap of
      Inl e \<Rightarrow> False
    | Inr this \<Rightarrow>
        (case fit this [[0, 0]] \<lparr>global_self = Some \<lparr>self_embedding = None\<rparr>\<rparr> of
           (res, this', w') \<Rightarrow>
             res = Inl (ReferenceError ''findABParams'') \<and>
             this_a this' = Number 5 \<and> this_b this' = Undefined))"
  by (simp add: constructor_def empty_config_def js_or_def param_of_def fit_def Let_def)

end
